theory Spec2Isabelle
  imports Complex_Main
begin

section \<open>Python numerics\<close>

text \<open>
  Scores are Python floats. They are modelled as real numbers: the arithmetic of the
  scoring pipeline is read in exact arithmetic, and the places where Python leaves the
  reals are written out. \<open>int(x)\<close> truncates toward zero. \<open>round(x)\<close> gives the nearest
  integer, a tie going to the even neighbour.
\<close>

definition py_int :: "real \<Rightarrow> int" where
  "py_int x = (if 0 \<le> x then \<lfloor>x\<rfloor> else \<lceil>x\<rceil>)"

definition round_half_even :: "real \<Rightarrow> int" where
  "round_half_even x =
     (let f = \<lfloor>x\<rfloor>; d = x - of_int f
      in if d < 1 / 2 then f
         else if 1 / 2 < d then f + 1
         else if even f then f else f + 1)"

text \<open>
  \<open>round(x, n)\<close> rounds the binary double that stands for \<open>x\<close> to \<open>n\<close> decimals. Where
  \<open>x\<close> lies strictly nearer to one of its two neighbours with \<open>n\<close> decimals, that
  neighbour is the result. Where \<open>x\<close> lies halfway between them, the double lies on one
  side or the other and the result follows it: \<open>round(0.7735, 3)\<close> is 0.773 and
  \<open>round(0.0005, 3)\<close> is 0.001. Which side that is cannot be read off the real number,
  so the direction at a tie is an input of the model: \<open>ties x n\<close> tells whether
  \<open>round(x, n)\<close> goes up there. Every property below holds for every such rule.
\<close>

type_synonym tie_rule = "real \<Rightarrow> nat \<Rightarrow> bool"

definition py_round :: "tie_rule \<Rightarrow> real \<Rightarrow> nat \<Rightarrow> real" where
  "py_round ties x n =
     (let y = x * 10 ^ n; f = \<lfloor>y\<rfloor>; d = y - of_int f
      in of_int (if d < 1 / 2 then f
                 else if 1 / 2 < d then f + 1
                 else if ties x n then f + 1 else f) / 10 ^ n)"

section \<open>Enumerations of the risk model\<close>

datatype RiskLevel = LOW | MEDIUM | HIGH | CRITICAL

definition from_score :: "real \<Rightarrow> RiskLevel" where
  "from_score score =
     (if score \<ge> 0.8 then RiskLevel.CRITICAL
      else if score \<ge> 0.6 then RiskLevel.HIGH
      else if score \<ge> 0.4 then RiskLevel.MEDIUM
      else RiskLevel.LOW)"

datatype RiskType = SUPPLY | LOGISTICS | FINANCIAL | OPERATIONAL | QUALITY | GEOPOLITICAL

datatype MitigationUrgency = IMMEDIATE | SHORT_TERM | MEDIUM_TERM | LONG_TERM

section \<open>Python values, errors and the environment\<close>

text \<open>
  Dictionaries that cross a module boundary (\<open>to_dict\<close>, \<open>from_dict\<close>, the result of
  the geographic correlator) are association lists from keys to Python values, in the
  order the source writes the keys.
\<close>

datatype pyval =
    PNone
  | PBool bool
  | PInt int
  | PFloat real
  | PStr string
  | PList "pyval list"
  | PDict "(string \<times> pyval) list"

datatype py_error = KeyError string | ValueError string | TypeError string

definition bind_err :: "'e + 'a \<Rightarrow> ('a \<Rightarrow> 'e + 'b) \<Rightarrow> 'e + 'b" where
  "bind_err m f = (case m of Inl e \<Rightarrow> Inl e | Inr x \<Rightarrow> f x)"

text \<open>
  A datetime is kept as the text \<open>isoformat()\<close> prints for it; \<open>fromisoformat\<close> reads
  that text back. The calendar arithmetic behind the text is not modelled.
\<close>

datatype datetime = Datetime string

fun isoformat :: "datetime \<Rightarrow> string" where
  "isoformat (Datetime s) = s"

definition fromisoformat :: "string \<Rightarrow> datetime" where
  "fromisoformat s = Datetime s"

text \<open>
  The constructors draw identifiers from \<open>uuid.uuid4()\<close> and read the clock. Both are
  inputs of the model: the world holds the stream of 128-bit draws still to come and the
  clock's reading, and a function that draws returns the world that remains.
\<close>

record world =
  entropy :: "nat \<Rightarrow> nat"
  clock :: datetime

definition hex_digit :: "nat \<Rightarrow> char" where
  "hex_digit n = ''0123456789abcdef'' ! (n mod 16)"

fun hex_digits :: "nat \<Rightarrow> nat \<Rightarrow> string" where
  "hex_digits 0 v = []"
| "hex_digits (Suc k) v = hex_digits k (v div 16) @ [hex_digit v]"

definition uuid_str :: "nat \<Rightarrow> string" where
  "uuid_str v =
     (let h = hex_digits 32 v
      in take 8 h @ ''-'' @ take 4 (drop 8 h) @ ''-'' @ take 4 (drop 12 h) @ ''-''
         @ take 4 (drop 16 h) @ ''-'' @ drop 20 h)"

definition uuid4 :: "world \<Rightarrow> string \<times> world" where
  "uuid4 w = (uuid_str (entropy w 0), w\<lparr> entropy := (\<lambda>n. entropy w (Suc n)) \<rparr>)"

definition now :: "world \<Rightarrow> datetime" where
  "now w = clock w"

text \<open>Truthiness of an optional string: \<open>None\<close> and the empty string are false.\<close>

definition truthy :: "string option \<Rightarrow> bool" where
  "truthy v = (case v of None \<Rightarrow> False | Some s \<Rightarrow> s \<noteq> [])"

text \<open>
  Strings are ASCII text: \<open>lower\<close> maps the letters A to Z to a to z, \<open>substring_in p s\<close>
  is Python's \<open>p in s\<close> on strings, and \<open>join\<close> is \<open>sep.join(parts)\<close>.
\<close>

definition lower_char :: "char \<Rightarrow> char" where
  "lower_char c =
     (case map_of (zip ''ABCDEFGHIJKLMNOPQRSTUVWXYZ'' ''abcdefghijklmnopqrstuvwxyz'') c of
        None \<Rightarrow> c
      | Some l \<Rightarrow> l)"

definition lower :: "string \<Rightarrow> string" where
  "lower s = map lower_char s"

fun substring_in :: "string \<Rightarrow> string \<Rightarrow> bool" where
  "substring_in p [] = (p = [])"
| "substring_in p (c # cs) = (take (length p) (c # cs) = p \<or> substring_in p cs)"

fun join :: "string \<Rightarrow> string list \<Rightarrow> string" where
  "join sep [] = []"
| "join sep [x] = x"
| "join sep (x # y # ys) = x @ sep @ join sep (y # ys)"

section \<open>Suppliers\<close>

datatype SupplierCriticality = LOW | MEDIUM | HIGH | CRITICAL

datatype SupplierTier = TIER_1 | TIER_2 | TIER_3

record Supplier =
  supplier_id :: string
  name :: string
  country :: string
  city :: "string option"
  region :: "string option"
  latitude :: "real option"
  longitude :: "real option"
  criticality :: SupplierCriticality
  tier :: SupplierTier
  categories :: "string list"
  lead_time_days :: int
  annual_spend :: real

definition SupplierCriticality_value :: "SupplierCriticality \<Rightarrow> string" where
  "SupplierCriticality_value c =
     (case c of SupplierCriticality.LOW \<Rightarrow> ''low'' | SupplierCriticality.MEDIUM \<Rightarrow> ''medium''
      | SupplierCriticality.HIGH \<Rightarrow> ''high'' | SupplierCriticality.CRITICAL \<Rightarrow> ''critical'')"

definition SupplierCriticality_of :: "string \<Rightarrow> py_error + SupplierCriticality" where
  "SupplierCriticality_of v =
     (if v = ''low'' then Inr SupplierCriticality.LOW
      else if v = ''medium'' then Inr SupplierCriticality.MEDIUM
      else if v = ''high'' then Inr SupplierCriticality.HIGH
      else if v = ''critical'' then Inr SupplierCriticality.CRITICAL
      else Inl (ValueError v))"

definition SupplierTier_value :: "SupplierTier \<Rightarrow> string" where
  "SupplierTier_value t =
     (case t of TIER_1 \<Rightarrow> ''tier_1'' | TIER_2 \<Rightarrow> ''tier_2'' | TIER_3 \<Rightarrow> ''tier_3'')"

definition SupplierTier_of :: "string \<Rightarrow> py_error + SupplierTier" where
  "SupplierTier_of v =
     (if v = ''tier_1'' then Inr TIER_1
      else if v = ''tier_2'' then Inr TIER_2
      else if v = ''tier_3'' then Inr TIER_3
      else Inl (ValueError v))"

text \<open>
  \<open>Supplier.__init__\<close>, with every parameter written out in the order of the source's
  signature; the source's defaults are \<open>city = None\<close>, \<open>region = None\<close>,
  \<open>latitude = None\<close>, \<open>longitude = None\<close>, \<open>criticality = MEDIUM\<close>, \<open>tier = TIER_1\<close>,
  \<open>categories = None\<close>, \<open>lead_time_days = 14\<close>, \<open>annual_spend = 0\<close> and
  \<open>supplier_id = None\<close>.
\<close>

definition Supplier_init ::
  "string \<Rightarrow> string \<Rightarrow> string option \<Rightarrow> string option \<Rightarrow> real option \<Rightarrow> real option
   \<Rightarrow> SupplierCriticality \<Rightarrow> SupplierTier \<Rightarrow> string list option \<Rightarrow> int \<Rightarrow> real
   \<Rightarrow> string option \<Rightarrow> world \<Rightarrow> Supplier \<times> world" where
  "Supplier_init name' country' city' region' latitude' longitude' criticality' tier'
      categories' lead_time_days' annual_spend' supplier_id' w =
     (let (sid, w') = (if truthy supplier_id' then (the supplier_id', w) else uuid4 w)
      in (\<lparr> supplier_id = sid, name = name', country = country', city = city',
             region = region', latitude = latitude', longitude = longitude',
             criticality = criticality', tier = tier',
             categories = (case categories' of None \<Rightarrow> [] | Some cs \<Rightarrow> cs),
             lead_time_days = lead_time_days', annual_spend = annual_spend' \<rparr>, w'))"

definition is_in_country :: "Supplier \<Rightarrow> string option \<Rightarrow> bool" where
  "is_in_country s country' =
     (if \<not> truthy country' then False
      else lower (country s) = lower (the country'))"

definition is_in_region :: "Supplier \<Rightarrow> string option \<Rightarrow> bool" where
  "is_in_region s region' =
     (if \<not> truthy region' \<or> \<not> truthy (region s) then False
      else lower (the (region s)) = lower (the region'))"

definition is_in_city :: "Supplier \<Rightarrow> string option \<Rightarrow> bool" where
  "is_in_city s city' =
     (if \<not> truthy city' \<or> \<not> truthy (city s) then False
      else lower (the (city s)) = lower (the city'))"

definition opt_str :: "string option \<Rightarrow> pyval" where
  "opt_str v = (case v of None \<Rightarrow> PNone | Some s \<Rightarrow> PStr s)"

definition opt_float :: "real option \<Rightarrow> pyval" where
  "opt_float v = (case v of None \<Rightarrow> PNone | Some x \<Rightarrow> PFloat x)"

definition Supplier_to_dict :: "Supplier \<Rightarrow> (string \<times> pyval) list" where
  "Supplier_to_dict s =
     [(''supplier_id'', PStr (supplier_id s)),
      (''name'', PStr (name s)),
      (''country'', PStr (country s)),
      (''city'', opt_str (city s)),
      (''region'', opt_str (region s)),
      (''latitude'', opt_float (latitude s)),
      (''longitude'', opt_float (longitude s)),
      (''criticality'', PStr (SupplierCriticality_value (criticality s))),
      (''tier'', PStr (SupplierTier_value (tier s))),
      (''categories'', PList (map PStr (categories s))),
      (''lead_time_days'', PInt (lead_time_days s)),
      (''annual_spend'', PFloat (annual_spend s))]"

text \<open>
  Reading a dictionary back. \<open>data[key]\<close> raises \<open>KeyError\<close> on a missing key and
  \<open>data.get(key, default)\<close> does not. The records are typed, so a value of another
  Python type than the field's is refused with \<open>TypeError\<close> where it is read.
\<close>

definition item :: "(string \<times> pyval) list \<Rightarrow> string \<Rightarrow> py_error + pyval" where
  "item data k = (case map_of data k of None \<Rightarrow> Inl (KeyError k) | Some v \<Rightarrow> Inr v)"

definition get_item :: "(string \<times> pyval) list \<Rightarrow> string \<Rightarrow> pyval \<Rightarrow> pyval" where
  "get_item data k dflt = (case map_of data k of None \<Rightarrow> dflt | Some v \<Rightarrow> v)"

fun as_str :: "pyval \<Rightarrow> py_error + string" where
  "as_str (PStr s) = Inr s"
| "as_str _ = Inl (TypeError ''str'')"

fun as_opt_str :: "pyval \<Rightarrow> py_error + string option" where
  "as_opt_str PNone = Inr None"
| "as_opt_str (PStr s) = Inr (Some s)"
| "as_opt_str _ = Inl (TypeError ''str'')"

fun as_float :: "pyval \<Rightarrow> py_error + real" where
  "as_float (PFloat x) = Inr x"
| "as_float (PInt i) = Inr (of_int i)"
| "as_float _ = Inl (TypeError ''float'')"

fun as_opt_float :: "pyval \<Rightarrow> py_error + real option" where
  "as_opt_float PNone = Inr None"
| "as_opt_float (PFloat x) = Inr (Some x)"
| "as_opt_float (PInt i) = Inr (Some (of_int i))"
| "as_opt_float _ = Inl (TypeError ''float'')"

fun as_int :: "pyval \<Rightarrow> py_error + int" where
  "as_int (PInt i) = Inr i"
| "as_int _ = Inl (TypeError ''int'')"

fun as_str_list :: "pyval list \<Rightarrow> py_error + string list" where
  "as_str_list [] = Inr []"
| "as_str_list (v # vs) =
     bind_err (as_str v) (\<lambda>x. bind_err (as_str_list vs) (\<lambda>xs. Inr (x # xs)))"

fun as_opt_categories :: "pyval \<Rightarrow> py_error + string list option" where
  "as_opt_categories PNone = Inr None"
| "as_opt_categories (PList vs) = bind_err (as_str_list vs) (\<lambda>xs. Inr (Some xs))"
| "as_opt_categories _ = Inl (TypeError ''list'')"

fun as_dict :: "pyval \<Rightarrow> py_error + (string \<times> pyval) list" where
  "as_dict (PDict d) = Inr d"
| "as_dict _ = Inl (TypeError ''dict'')"

fun as_list :: "pyval \<Rightarrow> py_error + pyval list" where
  "as_list (PList vs) = Inr vs"
| "as_list _ = Inl (TypeError ''list'')"

definition Supplier_from_dict ::
  "(string \<times> pyval) list \<Rightarrow> world \<Rightarrow> py_error + Supplier \<times> world" where
  "Supplier_from_dict data w =
     bind_err (as_opt_str (get_item data ''supplier_id'' PNone)) (\<lambda>sid.
     bind_err (bind_err (item data ''name'') as_str) (\<lambda>nm.
     bind_err (bind_err (item data ''country'') as_str) (\<lambda>co.
     bind_err (as_opt_str (get_item data ''city'' PNone)) (\<lambda>ci.
     bind_err (as_opt_str (get_item data ''region'' PNone)) (\<lambda>re.
     bind_err (as_opt_float (get_item data ''latitude'' PNone)) (\<lambda>la.
     bind_err (as_opt_float (get_item data ''longitude'' PNone)) (\<lambda>lo.
     bind_err (bind_err (as_str (get_item data ''criticality'' (PStr ''medium'')))
                 SupplierCriticality_of) (\<lambda>cr.
     bind_err (bind_err (as_str (get_item data ''tier'' (PStr ''tier_1''))) SupplierTier_of) (\<lambda>ti.
     bind_err (as_opt_categories (get_item data ''categories'' (PList []))) (\<lambda>ca.
     bind_err (as_int (get_item data ''lead_time_days'' (PInt 14))) (\<lambda>lt.
     bind_err (as_float (get_item data ''annual_spend'' (PInt 0))) (\<lambda>sp.
       Inr (Supplier_init nm co ci re la lo cr ti ca lt sp sid w)))))))))))))"

text \<open>The simulated supplier database, built once when the module is loaded.\<close>

fun build_all :: "(world \<Rightarrow> 'a \<times> world) list \<Rightarrow> world \<Rightarrow> 'a list \<times> world" where
  "build_all [] w = ([], w)"
| "build_all (f # fs) w =
     (let (x, w1) = f w; (xs, w2) = build_all fs w1 in (x # xs, w2))"

definition SIMULATED_SUPPLIERS :: "world \<Rightarrow> Supplier list \<times> world" where
  "SIMULATED_SUPPLIERS = build_all
     [Supplier_init ''TechParts Asia'' ''China'' (Some ''Shenzhen'') (Some ''Guangdong'')
        (Some 22.54) (Some 114.06) SupplierCriticality.HIGH TIER_1
        (Some [''electronics'', ''semiconductors'', ''components'']) 21 5000000 None,
      Supplier_init ''Rotterdam Logistics BV'' ''Netherlands'' (Some ''Rotterdam'') None
        (Some 51.92) (Some 4.48) SupplierCriticality.CRITICAL TIER_1
        (Some [''freight'', ''logistics'', ''warehousing'']) 7 3000000 None,
      Supplier_init ''Singapore Shipping Corp'' ''Singapore'' (Some ''Singapore'') None
        (Some 1.29) (Some 103.85) SupplierCriticality.HIGH TIER_1
        (Some [''maritime'', ''shipping'', ''freight'']) 14 4000000 None,
      Supplier_init ''Mumbai Components Ltd'' ''India'' (Some ''Mumbai'') (Some ''Maharashtra'')
        (Some 18.95) (Some 72.95) SupplierCriticality.MEDIUM TIER_2
        (Some [''manufacturing'', ''components'', ''assembly'']) 28 1500000 None,
      Supplier_init ''Texas Energy Solutions'' ''USA'' (Some ''Houston'') (Some ''Texas'')
        (Some 29.76) (Some (- 95.37)) SupplierCriticality.HIGH TIER_1
        (Some [''energy'', ''petrochemicals'', ''raw materials'']) 10 6000000 None,
      Supplier_init ''Japan Precision Industries'' ''Japan'' (Some ''Osaka'') (Some ''Kansai'')
        (Some 34.69) (Some 135.50) SupplierCriticality.CRITICAL TIER_1
        (Some [''precision components'', ''machinery'', ''electronics'']) 18 8000000 None,
      Supplier_init ''Bangkok Manufacturing'' ''Thailand'' (Some ''Bangkok'') None
        (Some 13.75) (Some 100.52) SupplierCriticality.MEDIUM TIER_2
        (Some [''manufacturing'', ''assembly'', ''textiles'']) 25 1200000 None,
      Supplier_init ''Taiwan Semiconductor'' ''Taiwan'' (Some ''Taipei'') None
        (Some 25.03) (Some 121.57) SupplierCriticality.CRITICAL TIER_1
        (Some [''semiconductors'', ''chips'', ''electronics'']) 30 12000000 None,
      Supplier_init ''Kolkata Port Services'' ''India'' (Some ''Kolkata'') (Some ''West Bengal'')
        (Some 22.57) (Some 88.36) SupplierCriticality.MEDIUM TIER_2
        (Some [''port services'', ''freight'', ''logistics'']) 14 800000 None,
      Supplier_init ''Dubai Logistics Hub'' ''UAE'' (Some ''Dubai'') None
        (Some 25.01) (Some 55.07) SupplierCriticality.HIGH TIER_1
        (Some [''logistics'', ''freight'', ''distribution'']) 12 2500000 None]"

text \<open>
  \<open>suppliers or get_simulated_suppliers()\<close>: an analyzer built without suppliers, or
  with an empty list, works on the simulated database.
\<close>

definition suppliers_or_simulated :: "Supplier list option \<Rightarrow> Supplier list \<Rightarrow> Supplier list" where
  "suppliers_or_simulated suppliers simulated =
     (case suppliers of None \<Rightarrow> simulated
      | Some xs \<Rightarrow> if xs = [] then simulated else xs)"

section \<open>Events\<close>

text \<open>
  An event reaches the risk analysis as a dictionary. The model keeps the keys the
  analysis reads, each one optional: \<open>None\<close> is a missing key, and every
  \<open>event.get(key, default)\<close> of the source is the case distinction on that option.
\<close>

record location =
  loc_country :: "string option"
  loc_region :: "string option"
  loc_city :: "string option"

record event =
  ev_title :: "string option"
  ev_category :: "string option"
  ev_severity :: "string option"
  ev_confidence :: "real option"
  ev_impact_score :: "real option"
  ev_location :: "location option"
  ev_keywords :: "string list option"

definition dict_get :: "('k \<rightharpoonup> 'v) \<Rightarrow> 'k \<Rightarrow> 'v \<Rightarrow> 'v" where
  "dict_get d k dflt = (case d k of None \<Rightarrow> dflt | Some v \<Rightarrow> v)"

definition get_or :: "'a option \<Rightarrow> 'a \<Rightarrow> 'a" where
  "get_or v dflt = (case v of None \<Rightarrow> dflt | Some x \<Rightarrow> x)"

section \<open>The risk scorer\<close>

definition weights :: "string \<rightharpoonup> real" where
  "weights = map_of
     [(''event_severity'', 0.30), (''supplier_criticality'', 0.30),
      (''financial_exposure'', 0.20), (''geographic_risk'', 0.20)]"

definition severity_values :: "string \<rightharpoonup> real" where
  "severity_values = map_of
     [(''critical'', 1.0), (''high'', 0.75), (''medium'', 0.5), (''low'', 0.25)]"

definition criticality_values :: "SupplierCriticality \<rightharpoonup> real" where
  "criticality_values = map_of
     [(SupplierCriticality.CRITICAL, 1.0), (SupplierCriticality.HIGH, 0.75),
      (SupplierCriticality.MEDIUM, 0.5), (SupplierCriticality.LOW, 0.25)]"

definition calculate_severity_score :: "event \<Rightarrow> real" where
  "calculate_severity_score ev =
     (let severity = get_or (ev_severity ev) ''medium'';
          confidence = get_or (ev_confidence ev) 1.0;
          impact_score = get_or (ev_impact_score ev) 0.5;
          severity_value = dict_get severity_values severity 0.5;
          score = (severity_value * 0.5 + impact_score * 0.5) * confidence
      in min 1.0 score)"

definition calculate_criticality_score :: "Supplier list \<Rightarrow> real" where
  "calculate_criticality_score suppliers =
     (if suppliers = [] then 0.0
      else
        let max_criticality =
              Max (set (map (\<lambda>s. dict_get criticality_values (criticality s) 0.5) suppliers));
            count_bonus = min 0.2 (real (length suppliers) * 0.05)
        in min 1.0 (max_criticality + count_bonus))"

definition calculate_financial_score :: "Supplier list \<Rightarrow> real" where
  "calculate_financial_score suppliers =
     (if suppliers = [] then 0.0
      else
        let total_spend = sum_list (map annual_spend suppliers)
        in if total_spend \<ge> 10000000 then 1.0
           else if total_spend \<ge> 5000000 then 0.7
           else if total_spend \<ge> 1000000 then 0.4
           else 0.2)"

definition determine_urgency :: "real \<Rightarrow> real \<Rightarrow> MitigationUrgency" where
  "determine_urgency composite_score criticality_score =
     (if composite_score \<ge> 0.8 \<or> criticality_score \<ge> 0.9 then IMMEDIATE
      else if composite_score \<ge> 0.6 then SHORT_TERM
      else if composite_score \<ge> 0.4 then MEDIUM_TERM
      else LONG_TERM)"

definition estimate_financial_impact :: "tie_rule \<Rightarrow> Supplier list \<Rightarrow> real \<Rightarrow> real" where
  "estimate_financial_impact ties suppliers risk_score =
     (if suppliers = [] then 0
      else
        let total_spend = sum_list (map annual_spend suppliers);
            weeks_affected = 1 + (risk_score * 3);
            weekly_spend = total_spend / 52
        in py_round ties (weekly_spend * weeks_affected) 2)"

definition severity_delays :: "string \<rightharpoonup> int" where
  "severity_delays = map_of
     [(''critical'', 14), (''high'', 7), (''medium'', 3), (''low'', 1)]"

definition estimate_delay_days :: "event \<Rightarrow> real \<Rightarrow> int" where
  "estimate_delay_days ev risk_score =
     (let severity = get_or (ev_severity ev) ''medium'';
          base_delay = dict_get severity_delays severity 3;
          adjusted_delay = py_int (of_int base_delay * (1 + risk_score))
      in adjusted_delay)"

record component_scores =
  cs_severity :: real
  cs_supplier_criticality :: real
  cs_financial_exposure :: real
  cs_geographic :: real

record score_result =
  res_composite_score :: real
  res_risk_level :: RiskLevel
  res_mitigation_urgency :: MitigationUrgency
  res_component_scores :: component_scores
  res_estimated_financial_impact :: real
  res_estimated_delay_days :: int

definition calculate_risk_score ::
  "tie_rule \<Rightarrow> event \<Rightarrow> Supplier list \<Rightarrow> real \<Rightarrow> score_result" where
  "calculate_risk_score ties ev affected_suppliers geographic_risk_factor =
     (let severity_score = calculate_severity_score ev;
          criticality_score = calculate_criticality_score affected_suppliers;
          financial_score = calculate_financial_score affected_suppliers;
          geo_score = geographic_risk_factor;
          composite_score =
            the (weights ''event_severity'') * severity_score +
            the (weights ''supplier_criticality'') * criticality_score +
            the (weights ''financial_exposure'') * financial_score +
            the (weights ''geographic_risk'') * geo_score;
          risk_level = from_score composite_score;
          urgency = determine_urgency composite_score criticality_score;
          financial_impact = estimate_financial_impact ties affected_suppliers composite_score;
          delay_days = estimate_delay_days ev composite_score
      in \<lparr> res_composite_score = py_round ties composite_score 3,
           res_risk_level = risk_level,
           res_mitigation_urgency = urgency,
           res_component_scores =
             \<lparr> cs_severity = py_round ties severity_score 3,
               cs_supplier_criticality = py_round ties criticality_score 3,
               cs_financial_exposure = py_round ties financial_score 3,
               cs_geographic = py_round ties geo_score 3 \<rparr>,
           res_estimated_financial_impact = financial_impact,
           res_estimated_delay_days = delay_days \<rparr>)"

definition get_risk_type :: "event \<Rightarrow> RiskType" where
  "get_risk_type ev =
     (let category = get_or (ev_category ev) ''other'';
          category_mapping = map_of
            [(''logistics'', RiskType.LOGISTICS), (''natural_disaster'', SUPPLY),
             (''labor'', OPERATIONAL), (''infrastructure'', RiskType.LOGISTICS),
             (''geopolitical'', RiskType.GEOPOLITICAL), (''economic'', FINANCIAL)]
      in dict_get category_mapping category OPERATIONAL)"

section \<open>The supplier impact analyzer\<close>

record SupplierImpactAnalyzer =
  sia_suppliers :: "Supplier list"

definition SupplierImpactAnalyzer_init ::
  "Supplier list option \<Rightarrow> Supplier list \<Rightarrow> SupplierImpactAnalyzer" where
  "SupplierImpactAnalyzer_init suppliers simulated =
     \<lparr> sia_suppliers = suppliers_or_simulated suppliers simulated \<rparr>"

definition check_geographic_match ::
  "Supplier \<Rightarrow> string option \<Rightarrow> string option \<Rightarrow> string option \<Rightarrow> bool" where
  "check_geographic_match supplier country' region' city' =
     (if truthy city' \<and> is_in_city supplier city' then True
      else if truthy region' \<and> is_in_region supplier region' then True
      else if truthy country' \<and> is_in_country supplier country' then True
      else False)"

definition keyword_category_map :: "string \<rightharpoonup> string list" where
  "keyword_category_map = map_of
     [(''port'', [''logistics'', ''freight'', ''shipping'', ''maritime'']),
      (''shipping'', [''logistics'', ''freight'', ''maritime'']),
      (''freight'', [''logistics'', ''shipping'']),
      (''manufacturing'', [''components'', ''assembly'']),
      (''semiconductor'', [''electronics'', ''chips'']),
      (''energy'', [''petrochemicals'', ''raw materials'']),
      (''cyclone'', [''port services'', ''logistics'', ''shipping'']),
      (''flood'', [''manufacturing'', ''logistics'']),
      (''earthquake'', [''manufacturing'', ''components''])]"

text \<open>
  Each loop of \<open>_check_category_match\<close> returns \<open>True\<close> at the first hit and falls
  through otherwise, so a loop is the test whether some element hits.
\<close>

definition check_category_match :: "Supplier \<Rightarrow> string list \<Rightarrow> bool" where
  "check_category_match supplier event_keywords =
     (if event_keywords = [] \<or> categories supplier = [] then False
      else
        let event_keywords_lower = map lower event_keywords
        in if list_ex (\<lambda>category.
                 let category_lower = lower category
                 in category_lower \<in> set event_keywords_lower
                    \<or> list_ex (\<lambda>keyword. substring_in category_lower keyword
                                        \<or> substring_in keyword category_lower)
                         event_keywords_lower)
               (categories supplier)
           then True
           else list_ex (\<lambda>keyword.
                  case keyword_category_map keyword of
                    None \<Rightarrow> False
                  | Some mapped \<Rightarrow>
                      list_ex (\<lambda>mapped_category.
                         mapped_category \<in> set (map lower (categories supplier))) mapped)
                event_keywords_lower)"

definition empty_location :: location where
  "empty_location = \<lparr> loc_country = None, loc_region = None, loc_city = None \<rparr>"

definition find_affected_suppliers :: "SupplierImpactAnalyzer \<Rightarrow> event \<Rightarrow> Supplier list" where
  "find_affected_suppliers self ev =
     (let location = get_or (ev_location ev) empty_location;
          country' = loc_country location;
          region' = loc_region location;
          city' = loc_city location;
          keywords = get_or (ev_keywords ev) []
      in filter (\<lambda>supplier.
            let geo_match = check_geographic_match supplier country' region' city';
                category_match = check_category_match supplier keywords
            in geo_match \<or> category_match)
           (sia_suppliers self))"

section \<open>The geographic correlator\<close>

record country_data =
  supplier_count :: int
  total_spend :: real
  cd_suppliers :: "string list"

record GeographicCorrelator =
  gc_suppliers :: "Supplier list"
  country_distribution :: "string \<rightharpoonup> country_data"

definition add_to_distribution ::
  "(string \<rightharpoonup> country_data) \<Rightarrow> Supplier \<Rightarrow> (string \<rightharpoonup> country_data)" where
  "add_to_distribution distribution supplier =
     (let d = (case distribution (country supplier) of
                 None \<Rightarrow> \<lparr> supplier_count = 0, total_spend = 0, cd_suppliers = [] \<rparr>
               | Some d \<Rightarrow> d)
      in distribution(country supplier \<mapsto>
           \<lparr> supplier_count = supplier_count d + 1,
             total_spend = total_spend d + annual_spend supplier,
             cd_suppliers = cd_suppliers d @ [name supplier] \<rparr>))"

definition calculate_country_distribution :: "Supplier list \<Rightarrow> (string \<rightharpoonup> country_data)" where
  "calculate_country_distribution suppliers = foldl add_to_distribution Map.empty suppliers"

definition GeographicCorrelator_init ::
  "Supplier list option \<Rightarrow> Supplier list \<Rightarrow> GeographicCorrelator" where
  "GeographicCorrelator_init suppliers simulated =
     (let sups = suppliers_or_simulated suppliers simulated
      in \<lparr> gc_suppliers = sups,
           country_distribution = calculate_country_distribution sups \<rparr>)"

definition format_region :: "string option \<Rightarrow> string option \<Rightarrow> string option \<Rightarrow> string" where
  "format_region country' region' city' =
     (let parts = map the (filter truthy [city', region', country'])
      in if parts = [] then ''Unknown'' else join '', '' parts)"

definition severity_multipliers :: "string \<rightharpoonup> real" where
  "severity_multipliers = map_of
     [(''critical'', 1.3), (''high'', 1.15), (''medium'', 1.0), (''low'', 0.8)]"

definition calculate_geographic_risk ::
  "tie_rule \<Rightarrow> GeographicCorrelator \<Rightarrow> event \<Rightarrow> (string \<times> pyval) list" where
  "calculate_geographic_risk ties self ev =
     (let location = get_or (ev_location ev) empty_location;
          country' = loc_country location;
          region' = loc_region location;
          city' = loc_city location
      in if \<not> truthy country' then
           [(''risk_factor'', PFloat 0.3),
            (''affected_region'', PStr ''Unknown''),
            (''concentration_risk'', PStr ''unknown''),
            (''suppliers_in_region'', PInt 0),
            (''spend_at_risk'', PInt 0)]
         else
           let country_data = country_distribution self (the country');
               suppliers_in_country =
                 (case country_data of None \<Rightarrow> 0 | Some d \<Rightarrow> supplier_count d);
               spend_in_country =
                 (case country_data of None \<Rightarrow> 0 | Some d \<Rightarrow> total_spend d);
               total_suppliers = int (length (gc_suppliers self));
               total_spend' = sum_list (map annual_spend (gc_suppliers self));
               concentration =
                 (if total_suppliers = 0 then 0
                  else real_of_int suppliers_in_country / real_of_int total_suppliers);
               spend_concentration =
                 (if total_spend' = 0 then 0 else spend_in_country / total_spend');
               risk_factor = concentration * 0.4 + spend_concentration * 0.6;
               severity = get_or (ev_severity ev) ''medium'';
               risk_factor = risk_factor * dict_get severity_multipliers severity 1.0;
               risk_factor = min 1.0 risk_factor;
               concentration_level =
                 (if concentration \<ge> 0.3 then ''high''
                  else if concentration \<ge> 0.15 then ''medium''
                  else ''low'')
           in [(''risk_factor'', PFloat (py_round ties risk_factor 3)),
               (''affected_region'', PStr (format_region country' region' city')),
               (''affected_country'', PStr (the country')),
               (''concentration_risk'', PStr concentration_level),
               (''suppliers_in_region'', PInt suppliers_in_country),
               (''spend_at_risk'', PFloat spend_in_country),
               (''supplier_concentration'', PFloat (py_round ties (concentration * 100) 1)),
               (''spend_concentration'', PFloat (py_round ties (spend_concentration * 100) 1))])"

definition keys :: "(string \<times> pyval) list \<Rightarrow> string list" where
  "keys d = map fst d"

section \<open>Risks\<close>

definition RiskLevel_value :: "RiskLevel \<Rightarrow> string" where
  "RiskLevel_value l =
     (case l of RiskLevel.LOW \<Rightarrow> ''low'' | RiskLevel.MEDIUM \<Rightarrow> ''medium''
      | RiskLevel.HIGH \<Rightarrow> ''high'' | RiskLevel.CRITICAL \<Rightarrow> ''critical'')"

definition RiskLevel_of :: "string \<Rightarrow> py_error + RiskLevel" where
  "RiskLevel_of v =
     (if v = ''low'' then Inr RiskLevel.LOW
      else if v = ''medium'' then Inr RiskLevel.MEDIUM
      else if v = ''high'' then Inr RiskLevel.HIGH
      else if v = ''critical'' then Inr RiskLevel.CRITICAL
      else Inl (ValueError v))"

definition RiskType_value :: "RiskType \<Rightarrow> string" where
  "RiskType_value t =
     (case t of SUPPLY \<Rightarrow> ''supply'' | RiskType.LOGISTICS \<Rightarrow> ''logistics''
      | FINANCIAL \<Rightarrow> ''financial'' | OPERATIONAL \<Rightarrow> ''operational''
      | QUALITY \<Rightarrow> ''quality'' | RiskType.GEOPOLITICAL \<Rightarrow> ''geopolitical'')"

definition RiskType_of :: "string \<Rightarrow> py_error + RiskType" where
  "RiskType_of v =
     (if v = ''supply'' then Inr SUPPLY
      else if v = ''logistics'' then Inr RiskType.LOGISTICS
      else if v = ''financial'' then Inr FINANCIAL
      else if v = ''operational'' then Inr OPERATIONAL
      else if v = ''quality'' then Inr QUALITY
      else if v = ''geopolitical'' then Inr RiskType.GEOPOLITICAL
      else Inl (ValueError v))"

definition MitigationUrgency_value :: "MitigationUrgency \<Rightarrow> string" where
  "MitigationUrgency_value u =
     (case u of IMMEDIATE \<Rightarrow> ''immediate'' | SHORT_TERM \<Rightarrow> ''short_term''
      | MEDIUM_TERM \<Rightarrow> ''medium_term'' | LONG_TERM \<Rightarrow> ''long_term'')"

definition MitigationUrgency_of :: "string \<Rightarrow> py_error + MitigationUrgency" where
  "MitigationUrgency_of v =
     (if v = ''immediate'' then Inr IMMEDIATE
      else if v = ''short_term'' then Inr SHORT_TERM
      else if v = ''medium_term'' then Inr MEDIUM_TERM
      else if v = ''long_term'' then Inr LONG_TERM
      else Inl (ValueError v))"

record Risk =
  risk_id :: string
  source_event_id :: string
  title :: string
  description :: string
  risk_score :: real
  risk_level :: RiskLevel
  risk_type :: RiskType
  affected_suppliers :: "Supplier list"
  geographic_scope :: "string option"
  mitigation_urgency :: MitigationUrgency
  estimated_financial_impact :: real
  estimated_delay_days :: int
  confidence :: real
  created_at :: datetime

text \<open>
  \<open>Risk.__init__\<close>, with every parameter written out in the order of the source's
  signature; the source's defaults are \<open>affected_suppliers = None\<close>,
  \<open>geographic_scope = None\<close>, \<open>mitigation_urgency = MEDIUM_TERM\<close>,
  \<open>estimated_financial_impact = 0\<close>, \<open>estimated_delay_days = 0\<close>, \<open>confidence = 1.0\<close>,
  \<open>risk_id = None\<close> and \<open>created_at = None\<close>.
\<close>

definition Risk_init ::
  "string \<Rightarrow> string \<Rightarrow> string \<Rightarrow> real \<Rightarrow> RiskLevel \<Rightarrow> RiskType \<Rightarrow> Supplier list option
   \<Rightarrow> string option \<Rightarrow> MitigationUrgency \<Rightarrow> real \<Rightarrow> int \<Rightarrow> real \<Rightarrow> string option
   \<Rightarrow> datetime option \<Rightarrow> world \<Rightarrow> Risk \<times> world" where
  "Risk_init source_event_id' title' description' risk_score' risk_level' risk_type'
      affected_suppliers' geographic_scope' mitigation_urgency' estimated_financial_impact'
      estimated_delay_days' confidence' risk_id' created_at' w =
     (let (rid, w') = (if truthy risk_id' then (the risk_id', w) else uuid4 w)
      in (\<lparr> risk_id = rid,
             source_event_id = source_event_id',
             title = title',
             description = description',
             risk_score = min (max risk_score' 0.0) 1.0,
             risk_level = risk_level',
             risk_type = risk_type',
             affected_suppliers = (case affected_suppliers' of None \<Rightarrow> [] | Some xs \<Rightarrow> xs),
             geographic_scope = geographic_scope',
             mitigation_urgency = mitigation_urgency',
             estimated_financial_impact = estimated_financial_impact',
             estimated_delay_days = estimated_delay_days',
             confidence = min (max confidence' 0.0) 1.0,
             created_at = (case created_at' of None \<Rightarrow> now w' | Some d \<Rightarrow> d) \<rparr>, w'))"

definition affected_supplier_count :: "Risk \<Rightarrow> int" where
  "affected_supplier_count r = int (length (affected_suppliers r))"

definition has_critical_suppliers :: "Risk \<Rightarrow> bool" where
  "has_critical_suppliers r =
     list_ex (\<lambda>s. criticality s = SupplierCriticality.CRITICAL) (affected_suppliers r)"

definition total_affected_spend :: "Risk \<Rightarrow> real" where
  "total_affected_spend r = sum_list (map annual_spend (affected_suppliers r))"

definition to_dict :: "tie_rule \<Rightarrow> Risk \<Rightarrow> (string \<times> pyval) list" where
  "to_dict ties r =
     [(''risk_id'', PStr (risk_id r)),
      (''source_event_id'', PStr (source_event_id r)),
      (''title'', PStr (title r)),
      (''description'', PStr (description r)),
      (''risk_score'', PFloat (py_round ties (risk_score r) 3)),
      (''risk_level'', PStr (RiskLevel_value (risk_level r))),
      (''risk_type'', PStr (RiskType_value (risk_type r))),
      (''affected_suppliers'', PList (map (\<lambda>s. PDict (Supplier_to_dict s)) (affected_suppliers r))),
      (''affected_supplier_count'', PInt (affected_supplier_count r)),
      (''geographic_scope'', opt_str (geographic_scope r)),
      (''mitigation_urgency'', PStr (MitigationUrgency_value (mitigation_urgency r))),
      (''estimated_financial_impact'', PFloat (estimated_financial_impact r)),
      (''estimated_delay_days'', PInt (estimated_delay_days r)),
      (''confidence'', PFloat (py_round ties (confidence r) 3)),
      (''has_critical_suppliers'', PBool (has_critical_suppliers r)),
      (''total_affected_spend'', PFloat (total_affected_spend r)),
      (''created_at'', PStr (isoformat (created_at r)))]"

fun suppliers_from_dicts :: "pyval list \<Rightarrow> world \<Rightarrow> py_error + Supplier list \<times> world" where
  "suppliers_from_dicts [] w = Inr ([], w)"
| "suppliers_from_dicts (v # vs) w =
     bind_err (as_dict v) (\<lambda>d.
     bind_err (Supplier_from_dict d w) (\<lambda>(s, w1).
     bind_err (suppliers_from_dicts vs w1) (\<lambda>(ss, w2). Inr (s # ss, w2))))"

definition from_dict :: "(string \<times> pyval) list \<Rightarrow> world \<Rightarrow> py_error + Risk \<times> world" where
  "from_dict data w =
     bind_err (as_list (get_item data ''affected_suppliers'' (PList []))) (\<lambda>ds.
     bind_err (suppliers_from_dicts ds w) (\<lambda>(suppliers, w1).
     bind_err (as_opt_str (get_item data ''risk_id'' PNone)) (\<lambda>rid.
     bind_err (bind_err (item data ''source_event_id'') as_str) (\<lambda>sev.
     bind_err (bind_err (item data ''title'') as_str) (\<lambda>ti.
     bind_err (bind_err (item data ''description'') as_str) (\<lambda>de.
     bind_err (bind_err (item data ''risk_score'') as_float) (\<lambda>sc.
     bind_err (bind_err (bind_err (item data ''risk_level'') as_str) RiskLevel_of) (\<lambda>lv.
     bind_err (bind_err (bind_err (item data ''risk_type'') as_str) RiskType_of) (\<lambda>ty.
     bind_err (as_opt_str (get_item data ''geographic_scope'' PNone)) (\<lambda>gs.
     bind_err (bind_err (as_str (get_item data ''mitigation_urgency'' (PStr ''medium_term'')))
                 MitigationUrgency_of) (\<lambda>mu.
     bind_err (as_float (get_item data ''estimated_financial_impact'' (PInt 0))) (\<lambda>fi.
     bind_err (as_int (get_item data ''estimated_delay_days'' (PInt 0))) (\<lambda>dd.
     bind_err (as_float (get_item data ''confidence'' (PFloat 1.0))) (\<lambda>cf.
     bind_err (as_opt_str (get_item data ''created_at'' PNone)) (\<lambda>ca.
       Inr (Risk_init sev ti de sc lv ty (Some suppliers) gs mu fi dd cf rid
              (if truthy ca then Some (fromisoformat (the ca)) else None) w1))))))))))))))))"

section \<open>The alert generator\<close>

datatype AlertPriority = P1 | P2 | P3 | P4

datatype AlertChannel = DASHBOARD | EMAIL | SMS | SLACK

text \<open>
  An alert carries what the routing rules decide. Its title and message are display
  text composed from the risk's fields and are left out of the record.
\<close>

record Alert =
  alert_id :: string
  alert_risk_id :: string
  priority :: AlertPriority
  channels :: "AlertChannel list"
  recipients :: "string list"
  action_required :: "string option"
  alert_created_at :: datetime
  acknowledged :: bool
  acknowledged_by :: "string option"
  acknowledged_at :: "datetime option"

definition Alert_init ::
  "Risk \<Rightarrow> AlertPriority \<Rightarrow> AlertChannel list option \<Rightarrow> string list option \<Rightarrow> string option
   \<Rightarrow> string option \<Rightarrow> world \<Rightarrow> Alert \<times> world" where
  "Alert_init risk priority' channels' recipients' action_required' alert_id' w =
     (let (aid, w') = (if truthy alert_id' then (the alert_id', w) else uuid4 w)
      in (\<lparr> alert_id = aid,
             alert_risk_id = risk_id risk,
             priority = priority',
             channels = (case channels' of None \<Rightarrow> [DASHBOARD]
                         | Some cs \<Rightarrow> if cs = [] then [DASHBOARD] else cs),
             recipients = (case recipients' of None \<Rightarrow> [] | Some rs \<Rightarrow> rs),
             action_required = action_required',
             alert_created_at = now w',
             acknowledged = False,
             acknowledged_by = None,
             acknowledged_at = None \<rparr>, w'))"

record AlertGenerator =
  critical_threshold :: real
  high_threshold :: real
  medium_threshold :: real

text \<open>
  \<open>AlertGenerator.__init__\<close>; the source's defaults are 0.8, 0.6 and 0.4, and
  \<open>default_generator\<close> is the generator built with them.
\<close>

definition AlertGenerator_init :: "real \<Rightarrow> real \<Rightarrow> real \<Rightarrow> AlertGenerator" where
  "AlertGenerator_init critical_threshold' high_threshold' medium_threshold' =
     \<lparr> critical_threshold = critical_threshold',
       high_threshold = high_threshold',
       medium_threshold = medium_threshold' \<rparr>"

definition default_generator :: AlertGenerator where
  "default_generator = AlertGenerator_init 0.8 0.6 0.4"

definition recipient_map :: "AlertPriority \<rightharpoonup> string list" where
  "recipient_map = map_of
     [(P1, [''exec-team'', ''supply-chain-vp'', ''risk-management'']),
      (P2, [''supply-chain-director'', ''procurement-lead'']),
      (P3, [''supply-chain-manager'', ''category-manager'']),
      (P4, [''supply-chain-analyst''])]"

definition channel_map :: "AlertPriority \<rightharpoonup> AlertChannel list" where
  "channel_map = map_of
     [(P1, [DASHBOARD, EMAIL, SMS]),
      (P2, [DASHBOARD, EMAIL]),
      (P3, [DASHBOARD, EMAIL]),
      (P4, [DASHBOARD])]"

definition determine_priority :: "AlertGenerator \<Rightarrow> Risk \<Rightarrow> AlertPriority option" where
  "determine_priority self risk =
     (if risk_level risk = RiskLevel.CRITICAL \<or> risk_score risk \<ge> critical_threshold self
      then Some P1
      else if risk_level risk = RiskLevel.HIGH \<or> risk_score risk \<ge> high_threshold self
      then (if has_critical_suppliers risk then Some P1 else Some P2)
      else if risk_level risk = RiskLevel.MEDIUM \<or> risk_score risk \<ge> medium_threshold self
      then Some P3
      else if risk_level risk = RiskLevel.LOW
      then Some P4
      else None)"

definition generate_action_required :: "Risk \<Rightarrow> string" where
  "generate_action_required risk =
     (let urgency_actions = map_of
            [(IMMEDIATE, ''Immediate action required within 24 hours''),
             (SHORT_TERM, ''Action required within 1 week''),
             (MEDIUM_TERM, ''Plan mitigation within 1 month''),
             (LONG_TERM, ''Add to risk register for monitoring'')]
      in dict_get urgency_actions (mitigation_urgency risk)
           ''Review and assess appropriate response'')"

definition generate_alert :: "AlertGenerator \<Rightarrow> Risk \<Rightarrow> world \<Rightarrow> Alert option \<times> world" where
  "generate_alert self risk w =
     (case determine_priority self risk of
        None \<Rightarrow> (None, w)
      | Some priority' \<Rightarrow>
          let action = generate_action_required risk;
              channels' = dict_get channel_map priority' [DASHBOARD];
              recipients' = dict_get recipient_map priority' [];
              (alert, w') = Alert_init risk priority' (Some channels') (Some recipients')
                              (Some action) None w
          in (Some alert, w'))"

section \<open>Well-formed risks and sample data\<close>

text \<open>
  What the constructors establish and no method changes: a risk has a non-empty
  identifier, its score and confidence lie in the unit interval, and every affected
  supplier has a non-empty identifier.
\<close>

definition Risk_valid :: "Risk \<Rightarrow> bool" where
  "Risk_valid r \<longleftrightarrow>
     risk_id r \<noteq> [] \<and> 0 \<le> risk_score r \<and> risk_score r \<le> 1
     \<and> 0 \<le> confidence r \<and> confidence r \<le> 1
     \<and> (\<forall>s \<in> set (affected_suppliers r). supplier_id s \<noteq> [])"

text \<open>Concrete inputs on which the properties below are exercised.\<close>

definition sample_ties :: tie_rule where
  "sample_ties = (\<lambda>x n. False)"

definition sample_world :: world where
  "sample_world = \<lparr> entropy = (\<lambda>n. n), clock = Datetime ''2024-01-01T00:00:00'' \<rparr>"

definition bare_event :: event where
  "bare_event = \<lparr> ev_title = None, ev_category = None, ev_severity = None,
     ev_confidence = None, ev_impact_score = None, ev_location = None, ev_keywords = None \<rparr>"

definition sample_supplier :: Supplier where
  "sample_supplier =
     fst (Supplier_init ''Bangkok Manufacturing'' ''Thailand'' (Some ''Bangkok'') None
        (Some 13.75) (Some 100.52) SupplierCriticality.MEDIUM TIER_2
        (Some [''Manufacturing'', ''assembly'', ''textiles'']) 25 1200000 (Some ''SUP-7'')
        sample_world)"

definition critical_supplier :: Supplier where
  "critical_supplier =
     fst (Supplier_init ''Taiwan Semiconductor'' ''Taiwan'' (Some ''Taipei'') None
        (Some 25.03) (Some 121.57) SupplierCriticality.CRITICAL TIER_1
        (Some [''semiconductors'', ''chips'', ''electronics'']) 30 12000000 (Some ''SUP-8'')
        sample_world)"

definition sample_correlator :: GeographicCorrelator where
  "sample_correlator = GeographicCorrelator_init (Some [sample_supplier, critical_supplier]) []"

definition sample_risk :: "real \<Rightarrow> RiskLevel \<Rightarrow> Supplier list \<Rightarrow> Risk" where
  "sample_risk score level sups =
     fst (Risk_init ''EVT-1'' ''Port strike'' ''Strike at the port'' score level
        RiskType.LOGISTICS (Some sups) (Some ''Thailand'') SHORT_TERM 50000 7 0.9
        (Some ''RISK-1'') None sample_world)"

text \<open>
  The scoring scenario: an event of severity \<open>critical\<close> with confidence 0.9, impact
  score 0.8 and location China, and a supplier of CRITICAL criticality with an annual
  spend of 12,000,000. The other fields are those of the argument.
\<close>

definition scenario_event :: "event \<Rightarrow> event" where
  "scenario_event ev =
     ev\<lparr> ev_severity := Some ''critical'', ev_confidence := Some 0.9,
         ev_impact_score := Some 0.8,
         ev_location := Some \<lparr> loc_country = Some ''China'', loc_region = None,
                                loc_city = None \<rparr> \<rparr>"

definition scenario_supplier :: "Supplier \<Rightarrow> Supplier" where
  "scenario_supplier s =
     s\<lparr> criticality := SupplierCriticality.CRITICAL, annual_spend := 12000000 \<rparr>"

section \<open>Rounding\<close>

lemma py_round_cases:
  obtains k :: int where "py_round ties x n = of_int k / 10 ^ n"
    and "\<bar>of_int k - x * 10 ^ n\<bar> \<le> 1 / 2"
proof -
  define y where "y = x * 10 ^ n"
  define k where "k = (if y - of_int \<lfloor>y\<rfloor> < 1 / 2 then \<lfloor>y\<rfloor>
                       else if 1 / 2 < y - of_int \<lfloor>y\<rfloor> then \<lfloor>y\<rfloor> + 1
                       else if ties x n then \<lfloor>y\<rfloor> + 1 else \<lfloor>y\<rfloor>)"
  have eq: "py_round ties x n = of_int k / 10 ^ n"
    by (simp add: py_round_def Let_def k_def y_def)
  have "of_int \<lfloor>y\<rfloor> \<le> y" and "y < of_int \<lfloor>y\<rfloor> + 1" by linarith+
  then have "\<bar>of_int k - y\<bar> \<le> 1 / 2"
    unfolding k_def by (auto simp: abs_le_iff)
  then show thesis using eq that unfolding y_def by blast
qed

lemma py_round_grid: "py_round ties x n * 10 ^ n \<in> \<int>"
proof -
  obtain k :: int where "py_round ties x n = of_int k / 10 ^ n"
    by (rule py_round_cases)
  then show ?thesis by simp
qed

lemma py_round_near: "\<bar>py_round ties x n - x\<bar> \<le> 1 / (2 * 10 ^ n)"
proof -
  obtain k :: int where k: "py_round ties x n = of_int k / 10 ^ n"
    and near: "\<bar>of_int k - x * 10 ^ n\<bar> \<le> 1 / 2"
    by (rule py_round_cases)
  have pos: "(0::real) < 10 ^ n" by simp
  have "py_round ties x n - x = (of_int k - x * 10 ^ n) / 10 ^ n"
    unfolding k by (simp add: field_simps)
  then have "\<bar>py_round ties x n - x\<bar> = \<bar>of_int k - x * 10 ^ n\<bar> / 10 ^ n"
    by simp
  also have "\<dots> \<le> (1 / 2) / 10 ^ n"
    by (rule divide_right_mono[OF near]) simp
  finally show ?thesis by simp
qed

lemma py_round_of_grid:
  assumes "x * 10 ^ n \<in> \<int>"
  shows "py_round ties x n = x"
proof -
  from assms obtain k :: int where k: "x * 10 ^ n = of_int k" by (auto elim: Ints_cases)
  have "py_round ties x n = of_int k / 10 ^ n"
    by (simp add: py_round_def Let_def k)
  also have "\<dots> = x" using k by (simp add: field_simps)
  finally show ?thesis .
qed

lemma py_round3_unit:
  assumes "0 \<le> x" and "x \<le> 1"
  shows "0 \<le> py_round ties x 3 \<and> py_round ties x 3 \<le> 1"
proof -
  obtain k :: int where k: "py_round ties x 3 = of_int k / 10 ^ 3"
    and near: "\<bar>of_int k - x * 10 ^ 3\<bar> \<le> 1 / 2"
    by (rule py_round_cases)
  have "0 \<le> x * 10 ^ 3" and "x * 10 ^ 3 \<le> 1000" using assms by simp_all
  with near have "- 1 / 2 \<le> (of_int k :: real)" and "(of_int k :: real) \<le> 1000 + 1 / 2"
    by linarith+
  then have "0 \<le> k" and "k \<le> 1000" by linarith+
  then have "0 \<le> (of_int k :: real)" and "(of_int k :: real) \<le> 1000" by linarith+
  then show ?thesis unfolding k by simp
qed

lemma py_round_zero: "py_round ties 0 n = 0"
  by (simp add: py_round_def)

section \<open>Risk levels from scores\<close>

text \<open>
  Claim C4. For every real score \<open>s\<close>, \<open>RiskLevel.from_score s\<close> is CRITICAL exactly when
  \<open>s \<ge> 0.8\<close>, HIGH exactly when \<open>0.6 \<le> s < 0.8\<close>, MEDIUM exactly when \<open>0.4 \<le> s < 0.6\<close>
  and LOW exactly when \<open>s < 0.4\<close>; the boundary values 0.8, 0.6 and 0.4 fall in the
  higher tier.
\<close>

theorem from_score_tiers:
  "(from_score s = RiskLevel.CRITICAL) = (s \<ge> 0.8)
   \<and> (from_score s = RiskLevel.HIGH) = (0.6 \<le> s \<and> s < 0.8)
   \<and> (from_score s = RiskLevel.MEDIUM) = (0.4 \<le> s \<and> s < 0.6)
   \<and> (from_score s = RiskLevel.LOW) = (s < 0.4)
   \<and> from_score 0.8 = RiskLevel.CRITICAL
   \<and> from_score 0.6 = RiskLevel.HIGH
   \<and> from_score 0.4 = RiskLevel.MEDIUM"
  by (simp add: from_score_def)

section \<open>The risk scorer's components\<close>

lemma scenario_severity_score: "calculate_severity_score (scenario_event ev) = 0.81"
  by (simp add: scenario_event_def calculate_severity_score_def get_or_def dict_get_def
      severity_values_def)

lemma scenario_criticality_score: "calculate_criticality_score [scenario_supplier s] = 1"
  by (simp add: scenario_supplier_def calculate_criticality_score_def dict_get_def
      criticality_values_def)

lemma scenario_financial_score: "calculate_financial_score [scenario_supplier s] = 1"
  by (simp add: scenario_supplier_def calculate_financial_score_def)

lemma scenario_composite:
  "res_composite_score (calculate_risk_score ties (scenario_event ev) [scenario_supplier s] 0.5)
     = 0.843"
proof -
  have "py_round ties 0.843 3 = 0.843"
    by (simp add: py_round_def Let_def)
  then show ?thesis
    by (simp add: calculate_risk_score_def scenario_severity_score scenario_criticality_score
        scenario_financial_score weights_def Let_def)
qed

lemma scenario_level:
  "res_risk_level (calculate_risk_score ties (scenario_event ev) [scenario_supplier s] 0.5)
     = RiskLevel.CRITICAL"
  by (simp add: calculate_risk_score_def scenario_severity_score scenario_criticality_score
      scenario_financial_score weights_def from_score_def Let_def)

text \<open>
  Claim C1, as stated: for every call of \<open>calculate_risk_score\<close> with an empty list of
  affected suppliers, the supplier-criticality component is 0 and the financial-exposure
  component is 0.2. The second half fails: on the bare event with no suppliers the
  financial-exposure component is 0.
\<close>

theorem empty_suppliers_financial_not_floor:
  "cs_financial_exposure (res_component_scores (calculate_risk_score sample_ties bare_event [] 0.5)) = 0
   \<and> cs_financial_exposure (res_component_scores (calculate_risk_score sample_ties bare_event [] 0.5))
       \<noteq> 0.2"
  by (simp add: calculate_risk_score_def calculate_financial_score_def py_round_zero Let_def)

text \<open>
  Claim C1, amended: for every call of \<open>calculate_risk_score\<close> with an empty list of
  affected suppliers, the supplier-criticality component and the financial-exposure
  component are both 0; the guard for the empty list returns before the step function
  whose lowest value is 0.2.
\<close>

theorem empty_suppliers_scores:
  "calculate_criticality_score [] = 0
   \<and> calculate_financial_score [] = 0
   \<and> cs_supplier_criticality (res_component_scores (calculate_risk_score ties ev [] g)) = 0
   \<and> cs_financial_exposure (res_component_scores (calculate_risk_score ties ev [] g)) = 0"
  by (simp add: calculate_risk_score_def calculate_criticality_score_def
      calculate_financial_score_def py_round_zero Let_def)

text \<open>
  Claim C2, as stated: in the scoring scenario with geographic risk factor 0.5 the
  composite score is 0.773 and the risk level is HIGH. On the bare event and the
  Taiwan supplier the composite score is not 0.773 and the level is not HIGH.
\<close>

theorem scenario_composite_not_0773:
  "res_composite_score
     (calculate_risk_score sample_ties (scenario_event bare_event) [scenario_supplier critical_supplier] 0.5)
     \<noteq> 0.773
   \<and> res_risk_level
     (calculate_risk_score sample_ties (scenario_event bare_event) [scenario_supplier critical_supplier] 0.5)
     \<noteq> RiskLevel.HIGH"
  unfolding scenario_composite scenario_level by simp

text \<open>
  Claim C2, amended: for the event with severity \<open>critical\<close>, confidence 0.9, impact
  score 0.8 and location country China, one affected supplier of CRITICAL criticality
  with annual spend 12,000,000, and geographic risk factor 0.5, \<open>calculate_risk_score\<close>
  yields severity score 0.81, criticality score 1.0, financial score 1.0, composite score
  \<open>0.3 * 0.81 + 0.3 * 1.0 + 0.2 * 1.0 + 0.2 * 0.5 = 0.843\<close>, risk level CRITICAL and
  mitigation urgency IMMEDIATE.
\<close>

theorem scenario_scores:
  "calculate_severity_score (scenario_event ev) = 0.81
   \<and> calculate_criticality_score [scenario_supplier s] = 1.0
   \<and> calculate_financial_score [scenario_supplier s] = 1.0
   \<and> res_composite_score
         (calculate_risk_score ties (scenario_event ev) [scenario_supplier s] 0.5) = 0.843
   \<and> res_risk_level
         (calculate_risk_score ties (scenario_event ev) [scenario_supplier s] 0.5) = RiskLevel.CRITICAL
   \<and> res_mitigation_urgency
         (calculate_risk_score ties (scenario_event ev) [scenario_supplier s] 0.5) = IMMEDIATE
   \<and> res_component_scores
         (calculate_risk_score ties (scenario_event ev) [scenario_supplier s] 0.5)
       = \<lparr> cs_severity = 0.81, cs_supplier_criticality = 1.0,
           cs_financial_exposure = 1.0, cs_geographic = 0.5 \<rparr>"
proof -
  have urgency:
    "res_mitigation_urgency
       (calculate_risk_score ties (scenario_event ev) [scenario_supplier s] 0.5) = IMMEDIATE"
    by (simp add: calculate_risk_score_def scenario_criticality_score determine_urgency_def
        Let_def)
  have rounded: "py_round ties 0.81 3 = 0.81" "py_round ties 1 3 = 1" "py_round ties 0.5 3 = 0.5"
    by (simp_all add: py_round_def Let_def)
  have components:
    "res_component_scores
       (calculate_risk_score ties (scenario_event ev) [scenario_supplier s] 0.5)
     = \<lparr> cs_severity = 0.81, cs_supplier_criticality = 1.0,
         cs_financial_exposure = 1.0, cs_geographic = 0.5 \<rparr>"
    using rounded
    by (simp add: calculate_risk_score_def scenario_severity_score
        scenario_criticality_score scenario_financial_score Let_def)
  show ?thesis
    using scenario_severity_score[of ev] scenario_criticality_score[of s]
      scenario_financial_score[of s] scenario_composite[of ties ev s] scenario_level[of ties ev s]
      urgency components
    by simp
qed

text \<open>
  Claim C3, as stated: the estimated delay is the base delay times one plus the composite
  score, rounded to the nearest integer. For an event of severity \<open>low\<close> and composite
  score 0.75 the product is 1.75; the source returns 1, and rounding gives 2.
\<close>

theorem delay_days_not_rounded:
  "estimate_delay_days (bare_event\<lparr> ev_severity := Some ''low'' \<rparr>) 0.75 = 1
   \<and> round_half_even (1 * (1 + 0.75)) = 2
   \<and> round (1 * (1 + 0.75) :: real) = 2"
  by (simp add: estimate_delay_days_def get_or_def dict_get_def severity_delays_def
      py_int_def round_half_even_def round_def Let_def)

text \<open>
  Claim C3, amended: for every event and every composite score \<open>s \<ge> 0\<close>, the estimated
  delay in days is the base delay times \<open>1 + s\<close> with the fraction cut off (the floor,
  not the nearest integer), where the base delay is 14 for severity \<open>critical\<close>, 7 for
  \<open>high\<close>, 3 for \<open>medium\<close> and 1 for \<open>low\<close>.
\<close>

theorem estimate_delay_days_truncates:
  assumes "0 \<le> s"
  shows "(ev_severity ev = Some ''critical'' \<longrightarrow> estimate_delay_days ev s = \<lfloor>14 * (1 + s)\<rfloor>)
       \<and> (ev_severity ev = Some ''high'' \<longrightarrow> estimate_delay_days ev s = \<lfloor>7 * (1 + s)\<rfloor>)
       \<and> (ev_severity ev = Some ''medium'' \<longrightarrow> estimate_delay_days ev s = \<lfloor>3 * (1 + s)\<rfloor>)
       \<and> (ev_severity ev = Some ''low'' \<longrightarrow> estimate_delay_days ev s = \<lfloor>1 * (1 + s)\<rfloor>)"
  using assms
  by (simp add: estimate_delay_days_def get_or_def dict_get_def severity_delays_def py_int_def)

theorem estimate_delay_days_truncates_witness:
  "(0::real) \<le> 0.75
   \<and> estimate_delay_days (bare_event\<lparr> ev_severity := Some ''critical'' \<rparr>) 0.75 = 24
   \<and> estimate_delay_days (bare_event\<lparr> ev_severity := Some ''high'' \<rparr>) 0.75 = 12
   \<and> estimate_delay_days (bare_event\<lparr> ev_severity := Some ''medium'' \<rparr>) 0.75 = 5
   \<and> estimate_delay_days (bare_event\<lparr> ev_severity := Some ''low'' \<rparr>) 0.75 = 1"
proof -
  have nonneg: "(0::real) \<le> 0.75" by simp
  show ?thesis
    using estimate_delay_days_truncates[OF nonneg, of "bare_event\<lparr> ev_severity := Some ''critical'' \<rparr>"]
      estimate_delay_days_truncates[OF nonneg, of "bare_event\<lparr> ev_severity := Some ''high'' \<rparr>"]
      estimate_delay_days_truncates[OF nonneg, of "bare_event\<lparr> ev_severity := Some ''medium'' \<rparr>"]
      estimate_delay_days_truncates[OF nonneg, of "bare_event\<lparr> ev_severity := Some ''low'' \<rparr>"]
    by simp
qed

section \<open>Alerts\<close>

lemma alert_priority:
  "map_option priority (fst (generate_alert self risk w)) = determine_priority self risk"
  by (simp add: generate_alert_def Alert_init_def Let_def split: option.splits prod.splits)

lemma determine_priority_some: "determine_priority self risk \<noteq> None"
  by (cases "risk_level risk") (simp_all add: determine_priority_def)

lemma sample_risk_fields:
  "risk_level (sample_risk x l sups) = l"
  "risk_score (sample_risk x l sups) = min (max x 0) 1"
  "affected_suppliers (sample_risk x l sups) = sups"
  by (simp_all add: sample_risk_def Risk_init_def truthy_def)

lemma critical_supplier_criticality:
  "criticality critical_supplier = SupplierCriticality.CRITICAL"
  by (simp add: critical_supplier_def Supplier_init_def truthy_def)

text \<open>
  Claim C5. With the default thresholds, the priority of the alert generated for a risk
  is decided by the first rule that matches, in this order: level CRITICAL or score at
  least 0.8 gives P1; level HIGH or score at least 0.6 gives P2, raised to P1 when some
  affected supplier has CRITICAL criticality; level MEDIUM or score at least 0.4 gives
  P3; level LOW gives P4. In particular a HIGH risk with score 0.65 and one affected
  supplier of CRITICAL criticality gets P1.
\<close>

theorem alert_priority_rules:
  "(risk_level r = RiskLevel.CRITICAL \<or> risk_score r \<ge> 0.8
       \<longrightarrow> map_option priority (fst (generate_alert default_generator r w)) = Some P1)
   \<and> (\<not> (risk_level r = RiskLevel.CRITICAL \<or> risk_score r \<ge> 0.8)
       \<and> (risk_level r = RiskLevel.HIGH \<or> risk_score r \<ge> 0.6)
       \<longrightarrow> map_option priority (fst (generate_alert default_generator r w))
             = Some (if \<exists>s \<in> set (affected_suppliers r).
                          criticality s = SupplierCriticality.CRITICAL
                     then P1 else P2))
   \<and> (\<not> (risk_level r = RiskLevel.CRITICAL \<or> risk_score r \<ge> 0.8)
       \<and> \<not> (risk_level r = RiskLevel.HIGH \<or> risk_score r \<ge> 0.6)
       \<and> (risk_level r = RiskLevel.MEDIUM \<or> risk_score r \<ge> 0.4)
       \<longrightarrow> map_option priority (fst (generate_alert default_generator r w)) = Some P3)
   \<and> (\<not> (risk_level r = RiskLevel.CRITICAL \<or> risk_score r \<ge> 0.8)
       \<and> \<not> (risk_level r = RiskLevel.HIGH \<or> risk_score r \<ge> 0.6)
       \<and> \<not> (risk_level r = RiskLevel.MEDIUM \<or> risk_score r \<ge> 0.4)
       \<and> risk_level r = RiskLevel.LOW
       \<longrightarrow> map_option priority (fst (generate_alert default_generator r w)) = Some P4)
   \<and> map_option priority (fst (generate_alert default_generator
         (r\<lparr> risk_level := RiskLevel.HIGH, risk_score := 0.65,
             affected_suppliers := [s\<lparr> criticality := SupplierCriticality.CRITICAL \<rparr>] \<rparr>) w))
       = Some P1"
  unfolding alert_priority
  by (simp add: determine_priority_def default_generator_def AlertGenerator_init_def
      has_critical_suppliers_def list_ex_iff)

theorem alert_priority_rules_witness:
  "map_option priority (fst (generate_alert default_generator
      (sample_risk 0.85 RiskLevel.CRITICAL []) sample_world)) = Some P1
   \<and> map_option priority (fst (generate_alert default_generator
      (sample_risk 0.65 RiskLevel.HIGH [critical_supplier]) sample_world)) = Some P1
   \<and> map_option priority (fst (generate_alert default_generator
      (sample_risk 0.65 RiskLevel.HIGH [sample_supplier]) sample_world)) = Some P2
   \<and> map_option priority (fst (generate_alert default_generator
      (sample_risk 0.45 RiskLevel.MEDIUM [critical_supplier]) sample_world)) = Some P3
   \<and> map_option priority (fst (generate_alert default_generator
      (sample_risk 0.2 RiskLevel.LOW [critical_supplier]) sample_world)) = Some P4"
proof -
  have sample: "criticality sample_supplier = SupplierCriticality.MEDIUM"
    by (simp add: sample_supplier_def Supplier_init_def truthy_def)
  show ?thesis
    using alert_priority_rules[of "sample_risk 0.85 RiskLevel.CRITICAL []" sample_world]
      alert_priority_rules[of "sample_risk 0.65 RiskLevel.HIGH [critical_supplier]" sample_world]
      alert_priority_rules[of "sample_risk 0.65 RiskLevel.HIGH [sample_supplier]" sample_world]
      alert_priority_rules[of "sample_risk 0.45 RiskLevel.MEDIUM [critical_supplier]" sample_world]
      alert_priority_rules[of "sample_risk 0.2 RiskLevel.LOW [critical_supplier]" sample_world]
    by (simp add: sample_risk_fields critical_supplier_criticality sample)
qed

text \<open>
  Claim C6. \<open>generate_alert\<close> returns no alert only when no rule of
  \<open>_determine_priority\<close> matches; every risk's level is one of LOW, MEDIUM, HIGH and
  CRITICAL, so for every generator, whatever its thresholds, and every risk an alert is
  returned, of priority P4 at the least: the return without an alert is unreachable.
\<close>

theorem generate_alert_never_none:
  "(\<exists>a. fst (generate_alert self risk w) = Some a \<and> priority a \<in> {P1, P2, P3, P4})
   \<and> fst (generate_alert self risk w) \<noteq> None
   \<and> determine_priority self risk \<noteq> None"
proof -
  obtain p where "map_option priority (fst (generate_alert self risk w)) = Some p"
    unfolding alert_priority using determine_priority_some[of self risk] by auto
  then obtain a where a: "fst (generate_alert self risk w) = Some a" by auto
  moreover have "priority a \<in> {P1, P2, P3, P4}" by (cases "priority a") simp_all
  ultimately show ?thesis using determine_priority_some[of self risk] by simp
qed

section \<open>Construction of risks\<close>

text \<open>
  Claim C9. For every risk constructed with any real risk score and confidence, the
  object's \<open>risk_score\<close> and \<open>confidence\<close> lie in the unit interval: a value below 0
  becomes 0 and a value above 1 becomes 1.
\<close>

theorem Risk_init_clamps:
  assumes "r = fst (Risk_init sev ti de x lv ty sups gs mu fi dd c rid ca w)"
  shows "0 \<le> risk_score r \<and> risk_score r \<le> 1
       \<and> (x < 0 \<longrightarrow> risk_score r = 0) \<and> (1 < x \<longrightarrow> risk_score r = 1)
       \<and> (0 \<le> x \<and> x \<le> 1 \<longrightarrow> risk_score r = x)
       \<and> 0 \<le> confidence r \<and> confidence r \<le> 1
       \<and> (c < 0 \<longrightarrow> confidence r = 0) \<and> (1 < c \<longrightarrow> confidence r = 1)
       \<and> (0 \<le> c \<and> c \<le> 1 \<longrightarrow> confidence r = c)"
  using assms by (simp add: Risk_init_def Let_def split: prod.splits)

theorem Risk_init_clamps_witness:
  "risk_score (fst (Risk_init ''EVT-1'' ''Port strike'' ''Strike at the port'' (- 0.5)
      RiskLevel.LOW RiskType.LOGISTICS None None LONG_TERM 0 0 1.7 None None sample_world)) = 0
   \<and> confidence (fst (Risk_init ''EVT-1'' ''Port strike'' ''Strike at the port'' (- 0.5)
      RiskLevel.LOW RiskType.LOGISTICS None None LONG_TERM 0 0 1.7 None None sample_world)) = 1
   \<and> risk_score (fst (Risk_init ''EVT-2'' ''Flood'' ''Flooded plant'' 1.2
      RiskLevel.HIGH SUPPLY None None SHORT_TERM 0 0 (- 3) None None sample_world)) = 1
   \<and> confidence (fst (Risk_init ''EVT-2'' ''Flood'' ''Flooded plant'' 1.2
      RiskLevel.HIGH SUPPLY None None SHORT_TERM 0 0 (- 3) None None sample_world)) = 0
   \<and> risk_score (fst (Risk_init ''EVT-3'' ''Strike'' ''Dock strike'' 0.65
      RiskLevel.HIGH SUPPLY None None SHORT_TERM 0 0 0.9 None None sample_world)) = 0.65
   \<and> confidence (fst (Risk_init ''EVT-3'' ''Strike'' ''Dock strike'' 0.65
      RiskLevel.HIGH SUPPLY None None SHORT_TERM 0 0 0.9 None None sample_world)) = 0.9"
  using Risk_init_clamps[OF refl, of "''EVT-1''" "''Port strike''" "''Strike at the port''" "- 0.5"
      RiskLevel.LOW RiskType.LOGISTICS None None LONG_TERM 0 0 "1.7" None None sample_world]
    Risk_init_clamps[OF refl, of "''EVT-2''" "''Flood''" "''Flooded plant''" "1.2"
      RiskLevel.HIGH SUPPLY None None SHORT_TERM 0 0 "- 3" None None sample_world]
    Risk_init_clamps[OF refl, of "''EVT-3''" "''Strike''" "''Dock strike''" "0.65"
      RiskLevel.HIGH SUPPLY None None SHORT_TERM 0 0 "0.9" None None sample_world]
  by simp

section \<open>Geographic risk\<close>

text \<open>
  Claim C7, as stated: for an event without a country the result holds all seven keys of
  the contract. On the bare event, which has no location at all, the result holds
  neither \<open>supplier_concentration\<close> nor \<open>spend_concentration\<close>.
\<close>

theorem no_country_result_lacks_keys:
  "''supplier_concentration'' \<notin> set (keys (calculate_geographic_risk sample_ties sample_correlator bare_event))
   \<and> ''spend_concentration'' \<notin> set (keys (calculate_geographic_risk sample_ties sample_correlator bare_event))"
  by (simp add: calculate_geographic_risk_def bare_event_def get_or_def empty_location_def
      truthy_def keys_def)

text \<open>
  Claim C7, amended: for every event whose location has no country,
  \<open>calculate_geographic_risk\<close> returns exactly risk factor 0.3 with affected region
  \<open>Unknown\<close>, in a result whose keys are \<open>risk_factor\<close>, \<open>affected_region\<close>,
  \<open>concentration_risk\<close>, \<open>suppliers_in_region\<close> and \<open>spend_at_risk\<close>; the result for
  every event whose location has a country holds all seven keys of the contract.
\<close>

theorem geographic_risk_keys:
  "(\<not> truthy (loc_country (get_or (ev_location ev) empty_location)) \<longrightarrow>
      map_of (calculate_geographic_risk ties self ev) ''risk_factor'' = Some (PFloat 0.3)
      \<and> map_of (calculate_geographic_risk ties self ev) ''affected_region'' = Some (PStr ''Unknown'')
      \<and> keys (calculate_geographic_risk ties self ev)
          = [''risk_factor'', ''affected_region'', ''concentration_risk'',
             ''suppliers_in_region'', ''spend_at_risk''])
   \<and> (truthy (loc_country (get_or (ev_location ev) empty_location)) \<longrightarrow>
      set [''risk_factor'', ''affected_region'', ''concentration_risk'', ''suppliers_in_region'',
           ''spend_at_risk'', ''supplier_concentration'', ''spend_concentration'']
        \<subseteq> set (keys (calculate_geographic_risk ties self ev)))"
  by (simp add: calculate_geographic_risk_def keys_def Let_def)

theorem geographic_risk_keys_witness:
  "\<not> truthy (loc_country (get_or (ev_location bare_event) empty_location))
   \<and> map_of (calculate_geographic_risk sample_ties sample_correlator bare_event) ''risk_factor''
       = Some (PFloat 0.3)
   \<and> map_of (calculate_geographic_risk sample_ties sample_correlator bare_event) ''affected_region''
       = Some (PStr ''Unknown'')
   \<and> keys (calculate_geographic_risk sample_ties sample_correlator bare_event)
       = [''risk_factor'', ''affected_region'', ''concentration_risk'',
          ''suppliers_in_region'', ''spend_at_risk'']
   \<and> truthy (loc_country (get_or (ev_location (scenario_event bare_event)) empty_location))
   \<and> set [''risk_factor'', ''affected_region'', ''concentration_risk'', ''suppliers_in_region'',
           ''spend_at_risk'', ''supplier_concentration'', ''spend_concentration'']
        \<subseteq> set (keys (calculate_geographic_risk sample_ties sample_correlator (scenario_event bare_event)))"
proof -
  have none: "\<not> truthy (loc_country (get_or (ev_location bare_event) empty_location))"
    by (simp add: bare_event_def get_or_def empty_location_def truthy_def)
  have china: "truthy (loc_country (get_or (ev_location (scenario_event bare_event)) empty_location))"
    by (simp add: scenario_event_def get_or_def truthy_def)
  show ?thesis
    using none china geographic_risk_keys[of bare_event sample_ties sample_correlator]
      geographic_risk_keys[of "scenario_event bare_event" sample_ties sample_correlator]
    by simp
qed

section \<open>Affected suppliers\<close>

lemma lower_earthquake: "lower ''earthquake'' = ''earthquake''"
  by (simp add: lower_def lower_char_def)

lemma substring_in_self: "substring_in s s"
  by (cases s) simp_all

lemma overlap_or_mapped:
  assumes "sub e e"
  shows "((\<exists>c \<in> S. l c = e \<or> sub (l c) e \<or> sub e (l c)) \<or> (m1 \<in> l ` S \<or> m2 \<in> l ` S))
     \<longleftrightarrow> (\<exists>c \<in> S. l c = m1 \<or> l c = m2 \<or> sub (l c) e \<or> sub e (l c))"
  using assms by auto

lemma earthquake_category_match:
  "check_category_match supplier [''earthquake''] \<longleftrightarrow>
     (\<exists>c \<in> set (categories supplier).
        lower c = ''manufacturing'' \<or> lower c = ''components''
        \<or> substring_in (lower c) ''earthquake'' \<or> substring_in ''earthquake'' (lower c))"
proof (cases "categories supplier = []")
  case True
  then show ?thesis by (simp add: check_category_match_def)
next
  case False
  have table: "keyword_category_map ''earthquake'' = Some [''manufacturing'', ''components'']"
    by (simp add: keyword_category_map_def)
  have code: "check_category_match supplier [''earthquake''] \<longleftrightarrow>
      (\<exists>c \<in> set (categories supplier).
          lower c = ''earthquake'' \<or> substring_in (lower c) ''earthquake''
          \<or> substring_in ''earthquake'' (lower c))
      \<or> (''manufacturing'' \<in> lower ` set (categories supplier)
          \<or> ''components'' \<in> lower ` set (categories supplier))"
    using False
    by (simp add: check_category_match_def lower_earthquake table Let_def list_ex_iff
        del: substring_in.simps)
  show ?thesis
    unfolding code
    by (rule overlap_or_mapped) (rule substring_in_self)
qed

lemma find_affected_suppliers_member:
  "supplier \<in> set (find_affected_suppliers self ev) \<longleftrightarrow>
     supplier \<in> set (sia_suppliers self)
     \<and> (check_geographic_match supplier
            (loc_country (get_or (ev_location ev) empty_location))
            (loc_region (get_or (ev_location ev) empty_location))
            (loc_city (get_or (ev_location ev) empty_location))
         \<or> check_category_match supplier (get_or (ev_keywords ev) []))"
  by (simp add: find_affected_suppliers_def Let_def)

lemma excluded_by_characterisation:
  assumes "x \<in> A \<longleftrightarrow> x \<in> B \<and> (G \<or> E)" and "\<not> G" and "\<not> E"
  shows "x \<notin> A"
  using assms by blast

text \<open>
  Claim C8. For every supplier of the analyzer whose categories include
  \<open>manufacturing\<close> or \<open>components\<close>, in any letter case, \<open>find_affected_suppliers\<close> on
  an event with keywords \<open>["earthquake"]\<close> includes that supplier, through the table
  from keywords to categories, whether or not the keyword and a category overlap as
  text. The table and the text overlap are the only ways in for a supplier outside the
  event's location: a supplier is in the result exactly when it is one of the analyzer's
  suppliers and either its location matches the event's or one of its categories, in
  lower case, is \<open>manufacturing\<close> or \<open>components\<close> or overlaps \<open>earthquake\<close> as text.
\<close>

theorem earthquake_matches_manufacturing:
  assumes "ev_keywords ev = Some [''earthquake'']"
  shows "(supplier \<in> set (sia_suppliers self)
          \<and> (\<exists>c \<in> set (categories supplier).
                lower c = ''manufacturing'' \<or> lower c = ''components'')
          \<longrightarrow> supplier \<in> set (find_affected_suppliers self ev))
       \<and> (supplier \<in> set (find_affected_suppliers self ev) \<longleftrightarrow>
            supplier \<in> set (sia_suppliers self)
            \<and> (check_geographic_match supplier
                   (loc_country (get_or (ev_location ev) empty_location))
                   (loc_region (get_or (ev_location ev) empty_location))
                   (loc_city (get_or (ev_location ev) empty_location))
                \<or> (\<exists>c \<in> set (categories supplier).
                      lower c = ''manufacturing'' \<or> lower c = ''components''
                      \<or> substring_in (lower c) ''earthquake''
                      \<or> substring_in ''earthquake'' (lower c))))"
proof -
  have kw: "get_or (ev_keywords ev) [] = [''earthquake'']"
    using assms by (simp add: get_or_def)
  have member: "supplier \<in> set (find_affected_suppliers self ev) \<longleftrightarrow>
            supplier \<in> set (sia_suppliers self)
            \<and> (check_geographic_match supplier
                   (loc_country (get_or (ev_location ev) empty_location))
                   (loc_region (get_or (ev_location ev) empty_location))
                   (loc_city (get_or (ev_location ev) empty_location))
                \<or> (\<exists>c \<in> set (categories supplier).
                      lower c = ''manufacturing'' \<or> lower c = ''components''
                      \<or> substring_in (lower c) ''earthquake''
                      \<or> substring_in ''earthquake'' (lower c)))"
    unfolding find_affected_suppliers_member kw earthquake_category_match ..
  then show ?thesis by blast
qed

theorem earthquake_matches_manufacturing_witness:
  "ev_keywords (bare_event\<lparr> ev_keywords := Some [''earthquake''] \<rparr>) = Some [''earthquake'']
   \<and> categories sample_supplier = [''Manufacturing'', ''assembly'', ''textiles'']
   \<and> sample_supplier \<in> set (find_affected_suppliers
        (SupplierImpactAnalyzer_init (Some [critical_supplier, sample_supplier]) [])
        (bare_event\<lparr> ev_keywords := Some [''earthquake''] \<rparr>))
   \<and> categories critical_supplier = [''semiconductors'', ''chips'', ''electronics'']
   \<and> critical_supplier \<notin> set (find_affected_suppliers
        (SupplierImpactAnalyzer_init (Some [critical_supplier, sample_supplier]) [])
        (bare_event\<lparr> ev_keywords := Some [''earthquake''] \<rparr>))"
proof -
  let ?self = "SupplierImpactAnalyzer_init (Some [critical_supplier, sample_supplier]) []"
  let ?ev = "bare_event\<lparr> ev_keywords := Some [''earthquake''] \<rparr>"
  have kw: "ev_keywords ?ev = Some [''earthquake'']" by simp
  have loc: "get_or (ev_location ?ev) empty_location = empty_location"
    by (simp add: bare_event_def get_or_def)
  have sups: "sia_suppliers ?self = [critical_supplier, sample_supplier]"
    by (simp add: SupplierImpactAnalyzer_init_def suppliers_or_simulated_def)
  have member: "sample_supplier \<in> set (sia_suppliers ?self)"
    unfolding sups by simp
  have cats: "categories sample_supplier = [''Manufacturing'', ''assembly'', ''textiles'']"
    by (simp add: sample_supplier_def Supplier_init_def truthy_def)
  have ccats: "categories critical_supplier = [''semiconductors'', ''chips'', ''electronics'']"
    by (simp add: critical_supplier_def Supplier_init_def truthy_def)
  have inside: "\<exists>c \<in> set (categories sample_supplier).
      lower c = ''manufacturing'' \<or> lower c = ''components''"
    by (simp add: cats lower_def lower_char_def)
  have nogeo: "\<not> check_geographic_match critical_supplier
      (loc_country (get_or (ev_location ?ev) empty_location))
      (loc_region (get_or (ev_location ?ev) empty_location))
      (loc_city (get_or (ev_location ?ev) empty_location))"
    unfolding loc by (simp add: check_geographic_match_def empty_location_def truthy_def)
  have low: "lower ''semiconductors'' = ''semiconductors''" "lower ''chips'' = ''chips''"
    "lower ''electronics'' = ''electronics''"
    by (simp_all add: lower_def lower_char_def)
  have outside: "\<not> (\<exists>c \<in> set (categories critical_supplier).
      lower c = ''manufacturing'' \<or> lower c = ''components''
      \<or> substring_in (lower c) ''earthquake'' \<or> substring_in ''earthquake'' (lower c))"
    by (simp add: ccats low)
  have a: "sample_supplier \<in> set (find_affected_suppliers ?self ?ev)"
    by (rule mp[OF earthquake_matches_manufacturing[OF kw, of sample_supplier ?self,
                     THEN conjunct1] conjI[OF member inside]])
  have b: "critical_supplier \<notin> set (find_affected_suppliers ?self ?ev)"
    by (rule excluded_by_characterisation
          [OF earthquake_matches_manufacturing[OF kw, of critical_supplier ?self, THEN conjunct2]
              nogeo outside])
  show ?thesis
    by (intro conjI kw cats ccats a b)
qed

section \<open>Dictionaries of risks\<close>

lemma uuid_str_nonempty: "uuid_str v \<noteq> []"
  by (simp add: uuid_str_def Let_def)

lemma Supplier_init_id:
  "supplier_id (fst (Supplier_init n co ci re la lo cr ti ca lt sp sid w)) \<noteq> []"
  by (simp add: Supplier_init_def uuid4_def uuid_str_nonempty truthy_def
      split: prod.splits option.splits)

lemma Risk_init_valid:
  assumes "\<forall>s \<in> set (case sups of None \<Rightarrow> [] | Some xs \<Rightarrow> xs). supplier_id s \<noteq> []"
  shows "Risk_valid (fst (Risk_init sev ti de x lv ty sups gs mu fi dd c rid ca w))"
  using assms
  by (simp add: Risk_valid_def Risk_init_def uuid4_def uuid_str_nonempty truthy_def
      split: prod.splits option.splits)

lemma SupplierCriticality_roundtrip: "SupplierCriticality_of (SupplierCriticality_value c) = Inr c"
  by (cases c) (simp_all add: SupplierCriticality_of_def SupplierCriticality_value_def)

lemma SupplierTier_roundtrip: "SupplierTier_of (SupplierTier_value t) = Inr t"
  by (cases t) (simp_all add: SupplierTier_of_def SupplierTier_value_def)

lemma RiskLevel_roundtrip: "RiskLevel_of (RiskLevel_value l) = Inr l"
  by (cases l) (simp_all add: RiskLevel_of_def RiskLevel_value_def)

lemma RiskType_roundtrip: "RiskType_of (RiskType_value t) = Inr t"
  by (cases t) (simp_all add: RiskType_of_def RiskType_value_def)

lemma MitigationUrgency_roundtrip: "MitigationUrgency_of (MitigationUrgency_value u) = Inr u"
  by (cases u) (simp_all add: MitigationUrgency_of_def MitigationUrgency_value_def)

lemma as_str_list_PStr: "as_str_list (map PStr cs) = Inr cs"
  by (induction cs) (simp_all add: bind_err_def)

lemma as_opt_str_opt_str: "as_opt_str (opt_str v) = Inr v"
  by (cases v) (simp_all add: opt_str_def)

lemma as_opt_float_opt_float: "as_opt_float (opt_float v) = Inr v"
  by (cases v) (simp_all add: opt_float_def)

lemma Supplier_roundtrip:
  assumes "supplier_id s \<noteq> []"
  shows "Supplier_from_dict (Supplier_to_dict s) w = Inr (s, w)"
  using assms
  by (simp add: Supplier_from_dict_def Supplier_to_dict_def get_item_def item_def bind_err_def
      as_opt_str_opt_str as_opt_float_opt_float SupplierCriticality_roundtrip
      SupplierTier_roundtrip as_str_list_PStr Supplier_init_def truthy_def)

lemma suppliers_roundtrip:
  assumes "\<forall>s \<in> set sups. supplier_id s \<noteq> []"
  shows "suppliers_from_dicts (map (\<lambda>s. PDict (Supplier_to_dict s)) sups) w = Inr (sups, w)"
  using assms
  by (induction sups) (simp_all add: bind_err_def Supplier_roundtrip)

lemma Risk_roundtrip:
  assumes "Risk_valid r"
  shows "from_dict (to_dict ties r) w =
     Inr (r\<lparr> risk_score := py_round ties (risk_score r) 3,
             confidence := py_round ties (confidence r) 3,
             created_at := (if isoformat (created_at r) = [] then now w else created_at r) \<rparr>, w)"
proof -
  have ids: "\<forall>s \<in> set (affected_suppliers r). supplier_id s \<noteq> []"
    and rid: "risk_id r \<noteq> []"
    using assms by (simp_all add: Risk_valid_def)
  have sc: "min (max (py_round ties (risk_score r) 3) 0) 1 = py_round ties (risk_score r) 3"
    using py_round3_unit[of "risk_score r" ties] assms by (simp add: Risk_valid_def)
  have cf: "min (max (py_round ties (confidence r) 3) 0) 1 = py_round ties (confidence r) 3"
    using py_round3_unit[of "confidence r" ties] assms by (simp add: Risk_valid_def)
  have ca: "fromisoformat (isoformat (created_at r)) = created_at r"
    by (cases "created_at r") (simp add: fromisoformat_def)
  have rec: "\<lparr> risk_id = risk_id r, source_event_id = source_event_id r,
           title = title r, description = description r,
           risk_score = x, risk_level = risk_level r,
           risk_type = risk_type r,
           affected_suppliers = affected_suppliers r,
           geographic_scope = geographic_scope r,
           mitigation_urgency = mitigation_urgency r,
           estimated_financial_impact = estimated_financial_impact r,
           estimated_delay_days = estimated_delay_days r,
           confidence = y,
           created_at = z \<rparr> = r\<lparr> risk_score := x, confidence := y, created_at := z \<rparr>" for x y z
    by (cases r) simp
  show ?thesis
    using rid sc cf ca
    by (simp add: from_dict_def to_dict_def get_item_def item_def bind_err_def
        suppliers_roundtrip[OF ids] as_opt_str_opt_str RiskLevel_roundtrip RiskType_roundtrip
        MitigationUrgency_roundtrip Risk_init_def truthy_def rec)
qed

lemma thousandth_near_unique:
  fixes y :: real
  assumes "y * 1000 \<in> \<int>" and "\<bar>y - 7734 / 10000\<bar> \<le> 1 / 2000"
  shows "y = 773 / 1000"
proof -
  from assms(1) obtain k :: int where k: "y * 1000 = of_int k" by (auto elim: Ints_cases)
  from assms(2) have "7729 / 10 \<le> y * 1000" and "y * 1000 \<le> 7739 / 10"
    by linarith+
  then have "7729 / 10 \<le> (of_int k :: real)" and "(of_int k :: real) \<le> 7739 / 10"
    unfolding k by simp_all
  then have "772 < k" and "k < 774" by linarith+
  then have "k = 773" by simp
  with k show ?thesis by simp
qed

text \<open>
  Claim C10. For every risk \<open>r\<close> (as the constructors build it), \<open>Risk.from_dict\<close> of
  \<open>r.to_dict()\<close> succeeds and yields a risk that agrees with \<open>r\<close> on \<open>risk_id\<close>,
  \<open>source_event_id\<close>, \<open>title\<close>, \<open>description\<close>, \<open>risk_level\<close>, \<open>risk_type\<close>,
  \<open>mitigation_urgency\<close>, \<open>geographic_scope\<close>, \<open>estimated_financial_impact\<close>,
  \<open>estimated_delay_days\<close> and the identifiers of the affected suppliers. Its
  \<open>risk_score\<close> is that of \<open>r\<close> rounded to 3 decimals, that is a multiple of 0.001 no
  further than 0.0005 from it, whichever way a tie goes, and so is its \<open>confidence\<close>;
  the round trip therefore gives back a score with at most 3 decimals, and not the
  score of \<open>r\<close> when that has more.
\<close>

theorem Risk_dict_roundtrip:
  assumes "Risk_valid r"
  shows "\<exists>r' w'. from_dict (to_dict ties r) w = Inr (r', w')
       \<and> risk_id r' = risk_id r
       \<and> source_event_id r' = source_event_id r
       \<and> title r' = title r
       \<and> description r' = description r
       \<and> risk_level r' = risk_level r
       \<and> risk_type r' = risk_type r
       \<and> mitigation_urgency r' = mitigation_urgency r
       \<and> geographic_scope r' = geographic_scope r
       \<and> estimated_financial_impact r' = estimated_financial_impact r
       \<and> estimated_delay_days r' = estimated_delay_days r
       \<and> map supplier_id (affected_suppliers r') = map supplier_id (affected_suppliers r)
       \<and> risk_score r' * 1000 \<in> \<int>
       \<and> \<bar>risk_score r' - risk_score r\<bar> \<le> 0.0005
       \<and> confidence r' * 1000 \<in> \<int>
       \<and> \<bar>confidence r' - confidence r\<bar> \<le> 0.0005"
proof -
  have grid: "py_round ties x 3 * 1000 \<in> \<int>" for x
    using py_round_grid[of ties x 3] by simp
  have near: "\<bar>py_round ties x 3 - x\<bar> \<le> 0.0005" for x
    using py_round_near[of ties x 3] by simp
  show ?thesis
    unfolding Risk_roundtrip[OF assms] using grid near by simp
qed

theorem Risk_dict_roundtrip_witness:
  "Risk_valid (sample_risk 0.7734 RiskLevel.HIGH [sample_supplier, critical_supplier])
   \<and> (\<exists>r' w'. from_dict
          (to_dict sample_ties
             (sample_risk 0.7734 RiskLevel.HIGH [sample_supplier, critical_supplier]))
          sample_world = Inr (r', w')
        \<and> risk_id r' = ''RISK-1''
        \<and> risk_level r' = RiskLevel.HIGH
        \<and> map supplier_id (affected_suppliers r') = [''SUP-7'', ''SUP-8'']
        \<and> risk_score r' = 0.773
        \<and> risk_score r' \<noteq> risk_score
             (sample_risk 0.7734 RiskLevel.HIGH [sample_supplier, critical_supplier]))"
proof -
  let ?r = "sample_risk 0.7734 RiskLevel.HIGH [sample_supplier, critical_supplier]"
  have valid: "Risk_valid ?r"
    unfolding sample_risk_def
    by (rule Risk_init_valid) (simp add: sample_supplier_def critical_supplier_def Supplier_init_id)
  have fields: "risk_id ?r = ''RISK-1''" "risk_score ?r = 7734 / 10000"
    "map supplier_id (affected_suppliers ?r) = [''SUP-7'', ''SUP-8'']"
    by (simp_all add: sample_risk_def Risk_init_def sample_supplier_def critical_supplier_def
        Supplier_init_def truthy_def)
  from Risk_dict_roundtrip[OF valid, of sample_ties sample_world]
  obtain r' w' where r': "from_dict (to_dict sample_ties ?r) sample_world = Inr (r', w')"
    "risk_id r' = risk_id ?r" "risk_level r' = risk_level ?r"
    "map supplier_id (affected_suppliers r') = map supplier_id (affected_suppliers ?r)"
    "risk_score r' * 1000 \<in> \<int>" "\<bar>risk_score r' - risk_score ?r\<bar> \<le> 0.0005"
    by blast
  have level: "risk_level r' = RiskLevel.HIGH"
    using r'(3) by (simp add: sample_risk_fields)
  have "\<bar>risk_score r' - 7734 / 10000\<bar> \<le> 1 / 2000"
    using r'(6) unfolding fields(2) by simp
  with r'(5) have "risk_score r' = 773 / 1000"
    by (rule thousandth_near_unique)
  then have score: "risk_score r' = 0.773" by simp
  have changed: "risk_score r' \<noteq> risk_score ?r"
    unfolding score fields(2) by simp
  have ident: "risk_id r' = ''RISK-1''"
    "map supplier_id (affected_suppliers r') = [''SUP-7'', ''SUP-8'']"
    using r'(2,4) by (simp_all only: fields)
  have "\<exists>r' w'. from_dict (to_dict sample_ties ?r) sample_world = Inr (r', w')
        \<and> risk_id r' = ''RISK-1''
        \<and> risk_level r' = RiskLevel.HIGH
        \<and> map supplier_id (affected_suppliers r') = [''SUP-7'', ''SUP-8'']
        \<and> risk_score r' = 0.773
        \<and> risk_score r' \<noteq> risk_score ?r"
    by (rule exI[of _ r'], rule exI[of _ w'])
       (intro conjI r'(1) ident level score changed)
  with valid show ?thesis by (rule conjI)
qed

end
